theory Spec2Isabelle
  imports Main
begin

section \<open>The stsh job-control shell\<close>

text \<open>
  A shallow embedding of \<^verbatim>\<open>stsh.cc\<close>: the builtins \<^verbatim>\<open>fg\<close>, \<^verbatim>\<open>bg\<close>,
  \<^verbatim>\<open>slay\<close>, \<^verbatim>\<open>halt\<close> and \<^verbatim>\<open>cont\<close>, the signal handlers, the pipeline
  launcher \<^verbatim>\<open>createJob\<close> (the parent's side and the forked child's side) and the
  \<^verbatim>\<open>catch\<close> clause of the read-eval-print loop.

  The shell is one record that every function takes and returns. The operating system is
  an explicit input: what \<^verbatim>\<open>fork\<close>, \<^verbatim>\<open>kill\<close>, \<^verbatim>\<open>tcsetpgrp\<close>, \<^verbatim>\<open>waitpid\<close>
  and \<^verbatim>\<open>sigsuspend\<close> answer is given to the functions as arguments, and every call the
  shell makes is appended to a trace, in program order.
\<close>

subsection \<open>Signals, wait statuses, system calls\<close>

datatype signal = SIGKILL | SIGSTOP | SIGCONT | SIGINT | SIGTSTP | SIGCHLD

text \<open>
  The status word \<^verbatim>\<open>waitpid\<close> stores: a child exited, was killed by a signal, was
  stopped by a signal, or was continued. The four macros of \<^verbatim>\<open>sys/wait.h\<close> read it.
\<close>

datatype wstatus = WExited int | WSignaled int | WStopped int | WContinued

fun WIFEXITED :: "wstatus \<Rightarrow> bool" where
  "WIFEXITED (WExited c) = True"
| "WIFEXITED w = False"

fun WIFSIGNALED :: "wstatus \<Rightarrow> bool" where
  "WIFSIGNALED (WSignaled g) = True"
| "WIFSIGNALED w = False"

fun WIFSTOPPED :: "wstatus \<Rightarrow> bool" where
  "WIFSTOPPED (WStopped g) = True"
| "WIFSTOPPED w = False"

fun WIFCONTINUED :: "wstatus \<Rightarrow> bool" where
  "WIFCONTINUED WContinued = True"
| "WIFCONTINUED w = False"

text \<open>
  The calls of the shell process that the trace records. \<^verbatim>\<open>Pipe k\<close> is
  \<^verbatim>\<open>pipe(fds[k])\<close> and \<^verbatim>\<open>ClosePipe k\<close> is \<^verbatim>\<open>Close(fds[k])\<close> in the parent;
  \<^verbatim>\<open>Stdout\<close> is a line written to \<^verbatim>\<open>cout\<close>.
\<close>

datatype syscall =
    Kill int signal
  | Fork int
  | Setpgid int int
  | Tcsetpgrp int
  | SigBlock
  | SigUnblock
  | Sigsuspend
  | Pipe nat
  | ClosePipe nat
  | OpenRdonly string
  | OpenTrunc string
  | OpenCreat string
  | Stdout string

subsection \<open>The C library: strtol, atoi, to_string\<close>

definition isspace :: "char \<Rightarrow> bool" where
  "isspace c = (c \<in> set [CHR '' '', CHR 0x09, CHR 0x0A, CHR 0x0B, CHR 0x0C, CHR 0x0D])"

definition isdigit :: "char \<Rightarrow> bool" where
  "isdigit c = (48 \<le> (of_char c :: nat) \<and> (of_char c :: nat) \<le> 57)"

text \<open>Reads the longest run of decimal digits; returns the number read and what is left.\<close>

fun read_digits :: "int \<Rightarrow> string \<Rightarrow> int \<times> string" where
  "read_digits acc [] = (acc, [])"
| "read_digits acc (c # cs) =
     (if isdigit c then read_digits (acc * 10 + (of_char c - 48)) cs else (acc, c # cs))"

definition LONG_MAX :: int where
  "LONG_MAX = 2 ^ 63 - 1"

definition LONG_MIN :: int where
  "LONG_MIN = - (2 ^ 63)"

text \<open>
  \<^verbatim>\<open>strtol(s, &ptr, 10)\<close>: leading white space, an optional sign, decimal digits. The
  result is the value (clamped to the range of \<^verbatim>\<open>long\<close>) and the rest of the string,
  which \<^verbatim>\<open>ptr\<close> points to. With no digit at all the value is 0 and \<^verbatim>\<open>ptr\<close> is
  \<^verbatim>\<open>s\<close> itself.
\<close>

definition strtol :: "string \<Rightarrow> int \<times> string" where
  "strtol s =
     (let t = dropWhile isspace s;
          neg = (case t of [] \<Rightarrow> False | c # r \<Rightarrow> c = CHR ''-'');
          u = (case t of [] \<Rightarrow> [] | c # r \<Rightarrow> if c = CHR ''-'' \<or> c = CHR ''+'' then r else t);
          v = fst (read_digits 0 u);
          rest = snd (read_digits 0 u)
      in if length rest = length u then (0, s)
         else (max LONG_MIN (min LONG_MAX (if neg then - v else v)), rest))"

text \<open>
  \<^verbatim>\<open>atoi(s)\<close> is \<^verbatim>\<open>(int) strtol(s, NULL, 10)\<close>: the conversion to the 32-bit
  \<^verbatim>\<open>int\<close> (and \<^verbatim>\<open>pid_t\<close>) wraps around.
\<close>

definition to_int32 :: "int \<Rightarrow> int" where
  "to_int32 x = (x + 2 ^ 31) mod 2 ^ 32 - 2 ^ 31"

definition atoi :: "string \<Rightarrow> int" where
  "atoi s = to_int32 (fst (strtol s))"

fun digits :: "nat \<Rightarrow> string" where
  "digits n =
     (if n < 10 then [''0123456789'' ! n]
      else digits (n div 10) @ [''0123456789'' ! (n mod 10)])"

declare digits.simps [simp del]

definition to_string :: "int \<Rightarrow> string" where
  "to_string i = (if i < 0 then CHR ''-'' # digits (nat (- i)) else digits (nat i))"

text \<open>A \<^verbatim>\<open>pid_t\<close> passed where a \<^verbatim>\<open>size_t\<close> is expected is taken modulo \<open>2^64\<close>.\<close>

definition to_size_t :: "int \<Rightarrow> nat" where
  "to_size_t x = nat (x mod 2 ^ 64)"

subsection \<open>Processes, jobs and the job table\<close>

text \<open>
  Modelled from the spec: the classes \<^verbatim>\<open>STSHProcess\<close>, \<^verbatim>\<open>STSHJob\<close> and
  \<^verbatim>\<open>STSHJobList\<close> (\<^verbatim>\<open>stsh-process.h\<close>, \<^verbatim>\<open>stsh-job.h\<close>, \<^verbatim>\<open>stsh-job-list.h\<close>)
  are not among the sources. A process has a pid, the command it runs and a state; a job
  has a number, a process group id (0 until the first process is added), a state and its
  processes in pipeline order. The fields carry the names of the getters the source
  calls.
\<close>

datatype STSHProcessState = kRunning | kStopped | kTerminated

datatype STSHJobState = kForeground | kBackground

record STSHProcess =
  getID :: int
  getCommand :: string
  getState :: STSHProcessState

record STSHJob =
  getNum :: nat
  getGroupID :: int
  getJobState :: STSHJobState
  getProcesses :: "STSHProcess list"

text \<open>
  Modelled from the spec: the job table \<^verbatim>\<open>STSHJobList\<close> is the list of its jobs in
  the order they were added. A reference \<^verbatim>\<open>STSHJob&\<close> is the job's number, which is
  unique among the jobs of the table and stays valid while other jobs are removed.
\<close>

type_synonym STSHJobList = "STSHJob list"

text \<open>
  Modelled from the spec: \<^verbatim>\<open>STSHJob::containsProcess(pid)\<close> and
  \<^verbatim>\<open>STSHJob::getProcess(pid)\<close>, the lookup of a member by its pid. A lookup that
  finds nothing is \<open>None\<close>.
\<close>

definition job_containsProcess :: "int \<Rightarrow> STSHJob \<Rightarrow> bool" where
  "job_containsProcess p j = list_ex (\<lambda>q. getID q = p) (getProcesses j)"

definition job_getProcess :: "int \<Rightarrow> STSHJob \<Rightarrow> STSHProcess option" where
  "job_getProcess p j = find (\<lambda>q. getID q = p) (getProcesses j)"

text \<open>
  Modelled from the spec: \<^verbatim>\<open>addProcess\<close> appends the process and fixes the pgid on the
  first insertion if it is not already set (it is 0 until then).
\<close>

definition addProcess :: "STSHProcess \<Rightarrow> STSHJob \<Rightarrow> STSHJob" where
  "addProcess q j =
     j\<lparr>getGroupID := (if getGroupID j = 0 then getID q else getGroupID j),
       getProcesses := getProcesses j @ [q]\<rparr>"

text \<open>
  Modelled from the spec: \<^verbatim>\<open>job.getProcess(pid).setState(state)\<close> sets the state of
  the process of the job with the given pid (the first one, should there be several).
\<close>

fun setProcessState :: "int \<Rightarrow> STSHProcessState \<Rightarrow> STSHProcess list \<Rightarrow> STSHProcess list" where
  "setProcessState p st [] = []"
| "setProcessState p st (q # qs) =
     (if getID q = p then q\<lparr>getState := st\<rparr> # qs else q # setProcessState p st qs)"

text \<open>
  Modelled from the spec: the lookups of \<^verbatim>\<open>STSHJobList\<close>, by job number
  (\<^verbatim>\<open>containsJob\<close>, \<^verbatim>\<open>getJob\<close>), by the pid of a member (\<^verbatim>\<open>containsProcess\<close>,
  \<^verbatim>\<open>getJobWithProcess\<close>) and by the foreground state (\<^verbatim>\<open>hasForegroundJob\<close>,
  \<^verbatim>\<open>getForegroundJob\<close>). A lookup that finds nothing is \<open>None\<close>.
\<close>

definition containsJob :: "nat \<Rightarrow> STSHJobList \<Rightarrow> bool" where
  "containsJob n jl = list_ex (\<lambda>j. getNum j = n) jl"

definition getJob :: "nat \<Rightarrow> STSHJobList \<Rightarrow> STSHJob option" where
  "getJob n jl = find (\<lambda>j. getNum j = n) jl"

definition containsProcess :: "int \<Rightarrow> STSHJobList \<Rightarrow> bool" where
  "containsProcess p jl = list_ex (job_containsProcess p) jl"

definition getJobWithProcess :: "int \<Rightarrow> STSHJobList \<Rightarrow> STSHJob option" where
  "getJobWithProcess p jl = find (job_containsProcess p) jl"

definition hasForegroundJob :: "STSHJobList \<Rightarrow> bool" where
  "hasForegroundJob jl = list_ex (\<lambda>j. getJobState j = kForeground) jl"

definition getForegroundJob :: "STSHJobList \<Rightarrow> STSHJob option" where
  "getForegroundJob jl = find (\<lambda>j. getJobState j = kForeground) jl"

text \<open>
  Modelled from the spec: a change made through a reference \<^verbatim>\<open>STSHJob&\<close> changes the
  job of that number in the table.
\<close>

definition updateJob :: "nat \<Rightarrow> (STSHJob \<Rightarrow> STSHJob) \<Rightarrow> STSHJobList \<Rightarrow> STSHJobList" where
  "updateJob n f jl = map (\<lambda>j. if getNum j = n then f j else j) jl"

text \<open>
  Modelled from the spec: \<^verbatim>\<open>addJob\<close> allocates a fresh number (one more than the
  largest in use, 1 for an empty table), inserts an empty job with pgid 0 and returns the
  reference to it.
\<close>

definition addJob :: "STSHJobState \<Rightarrow> STSHJobList \<Rightarrow> nat \<times> STSHJobList" where
  "addJob st jl =
     (let n = Suc (fold max (map getNum jl) 0)
      in (n, jl @ [\<lparr>getNum = n, getGroupID = 0, getJobState = st, getProcesses = []\<rparr>]))"

subsection \<open>The shell\<close>

text \<open>
  \<open>terminal\<close> is the foreground process group of the controlling terminal, \<open>shell_pgid\<close>
  is \<^verbatim>\<open>getpgid(getpid())\<close>, \<open>blocked\<close> says whether SIGCHLD, SIGINT, SIGTSTP and SIGCONT
  are in the signal mask, \<open>pending\<close> holds the child events that arrived while they were
  blocked, and \<open>trace\<close> is what the shell has called so far.
\<close>

record shell =
  joblist :: STSHJobList
  terminal :: int
  shell_pgid :: int
  blocked :: bool
  pending :: "(int \<times> wstatus) list"
  trace :: "syscall list"

text \<open>
  How a function ends: it returns, it throws an \<^verbatim>\<open>STSHException\<close> with a message, it
  calls \<^verbatim>\<open>exit\<close>, or it is cut short (a failed \<^verbatim>\<open>assert\<close>, a lookup that the code
  takes to succeed and that fails, a read of a variable that was never set).
\<close>

datatype result = Returns shell | Throws string shell | Exits int shell | Aborts shell

definition call :: "syscall \<Rightarrow> shell \<Rightarrow> shell" where
  "call c s = s\<lparr>trace := trace s @ [c]\<rparr>"

text \<open>
  Modelled from the spec: \<^verbatim>\<open>synchronize\<close> examines every process of the job. If every
  process is Terminated the job is removed. Otherwise, if the job is Foreground and all
  the remaining processes are Stopped, the job becomes Background and the controlling
  terminal is handed back to the shell.
\<close>

definition synchronize :: "nat \<Rightarrow> shell \<Rightarrow> shell" where
  "synchronize n s =
     (case getJob n (joblist s) of
        None \<Rightarrow> s
      | Some j \<Rightarrow>
          if list_all (\<lambda>q. getState q = kTerminated) (getProcesses j)
          then s\<lparr>joblist := filter (\<lambda>j'. getNum j' \<noteq> n) (joblist s)\<rparr>
          else if getJobState j = kForeground \<and>
                  list_all (\<lambda>q. getState q = kStopped)
                    (filter (\<lambda>q. getState q \<noteq> kTerminated) (getProcesses j))
          then s\<lparr>joblist := updateJob n (\<lambda>j'. j'\<lparr>getJobState := kBackground\<rparr>) (joblist s),
                 terminal := shell_pgid s\<rparr>
          else s)"

subsection \<open>The parsed command line\<close>

text \<open>
  Modelled from the spec: the parser's \<^verbatim>\<open>command\<close> and \<^verbatim>\<open>pipeline\<close>
  (\<^verbatim>\<open>stsh-parse.h\<close> is not among the sources). A command is its name and its
  arguments; a pipeline is a sequence of commands, the paths of the files that replace
  the first standard input and the last standard output (\<^verbatim>\<open>input\<close> and
  \<^verbatim>\<open>output\<close> in the source; the empty string means none) and the background flag.
\<close>

record command =
  command :: string
  tokens :: "string list"

record pipeline =
  commands :: "command list"
  input_path :: string
  output_path :: string
  background :: bool

text \<open>
  \<^verbatim>\<open>tokens\<close> is a NULL-terminated array of C strings: \<^verbatim>\<open>tokens[i]\<close> is the
  \<open>i\<close>-th argument, and NULL (\<open>None\<close>) past the last one.
\<close>

definition tok :: "string list \<Rightarrow> nat \<Rightarrow> string option" where
  "tok ts i = (if i < length ts then Some (ts ! i) else None)"

subsection \<open>Signal handlers\<close>

text \<open>
  The assignments of \<^verbatim>\<open>sigchldHandler\<close> to its local \<^verbatim>\<open>state\<close>, in the order of
  the source: four \<^verbatim>\<open>if\<close>s, none with an \<^verbatim>\<open>else\<close>. The variable starts
  uninitialised (\<open>None\<close>).
\<close>

definition status_state :: "wstatus \<Rightarrow> STSHProcessState option" where
  "status_state status =
     (let st0 = None;
          st1 = (if WIFEXITED status then Some kTerminated else st0);
          st2 = (if WIFCONTINUED status then Some kRunning else st1);
          st3 = (if WIFSIGNALED status then Some kTerminated else st2);
          st4 = (if WIFSTOPPED status then Some kStopped else st3)
      in st4)"

text \<open>
  \<^verbatim>\<open>sigchldHandler\<close>. The list is what the successive calls of
  \<^verbatim>\<open>waitpid(-1, &status, WNOHANG|WUNTRACED|WCONTINUED)\<close> return, pid and status; past
  its end the call returns 0 or -1 (no child has anything to report).
\<close>

fun sigchldHandler :: "(int \<times> wstatus) list \<Rightarrow> shell \<Rightarrow> result" where
  "sigchldHandler [] s = Returns s"
| "sigchldHandler ((pid, status) # evs) s =
     (if pid \<le> 0 then Returns s
      else case getJobWithProcess pid (joblist s) of
             None \<Rightarrow> Aborts s
           | Some job \<Rightarrow>
               if \<not> job_containsProcess pid job then Aborts s
               else case status_state status of
                      None \<Rightarrow> Aborts s
                    | Some st \<Rightarrow>
                        sigchldHandler evs
                          (synchronize (getNum job)
                            (s\<lparr>joblist :=
                                 updateJob (getNum job)
                                   (\<lambda>j. j\<lparr>getProcesses := setProcessState pid st (getProcesses j)\<rparr>)
                                   (joblist s)\<rparr>)))"

text \<open>\<^verbatim>\<open>for (auto process: processes) kill(process.getID(), sig)\<close>.\<close>

definition kill_each :: "STSHProcess list \<Rightarrow> signal \<Rightarrow> shell \<Rightarrow> shell" where
  "kill_each qs sig s = fold (\<lambda>q. call (Kill (getID q) sig)) qs s"

definition sigintHandler :: "shell \<Rightarrow> result" where
  "sigintHandler s =
     (if hasForegroundJob (joblist s)
      then (case getForegroundJob (joblist s) of
              None \<Rightarrow> Aborts s
            | Some job \<Rightarrow> Returns (kill_each (getProcesses job) SIGINT s))
      else Returns s)"

definition sigtstpHandler :: "shell \<Rightarrow> result" where
  "sigtstpHandler s =
     (if hasForegroundJob (joblist s)
      then (case getForegroundJob (joblist s) of
              None \<Rightarrow> Aborts s
            | Some job \<Rightarrow> Returns (kill_each (getProcesses job) SIGTSTP s))
      else Returns s)"

subsection \<open>Signal delivery\<close>

text \<open>
  Child events that arrive at some point of the program: with the signals blocked they
  stay pending, otherwise SIGCHLD is delivered there and then and its handler runs.
\<close>

definition arrive :: "(int \<times> wstatus) list \<Rightarrow> shell \<Rightarrow> result" where
  "arrive evs s =
     (if evs = [] then Returns s
      else if blocked s then Returns (s\<lparr>pending := pending s @ evs\<rparr>)
      else sigchldHandler evs s)"

definition deliver_pending :: "shell \<Rightarrow> result" where
  "deliver_pending s =
     (if pending s = [] then Returns s else sigchldHandler (pending s) (s\<lparr>pending := []\<rparr>))"

definition sigprocmask_BLOCK :: "shell \<Rightarrow> shell" where
  "sigprocmask_BLOCK s = (call SigBlock s)\<lparr>blocked := True\<rparr>"

definition sigprocmask_UNBLOCK :: "shell \<Rightarrow> result" where
  "sigprocmask_UNBLOCK s = deliver_pending ((call SigUnblock s)\<lparr>blocked := False\<rparr>)"

text \<open>
  What ends one call of \<^verbatim>\<open>sigsuspend\<close>: SIGCHLD with the child events its handler
  will find, SIGINT or SIGTSTP.
\<close>

datatype wake = WakeCHLD "(int \<times> wstatus) list" | WakeINT | WakeTSTP

text \<open>
  \<^verbatim>\<open>sigsuspend(&existing)\<close>: the mask is \<open>existing\<close> while the shell sleeps. If that
  mask blocks the signals, none of them can end the call (\<open>None\<close>: it does not return).
  Otherwise the pending child events and those of the wake are handled.
\<close>

definition sigsuspend :: "bool \<Rightarrow> wake \<Rightarrow> shell \<Rightarrow> result option" where
  "sigsuspend existing w s =
     (if existing then None
      else Some
        (case w of
           WakeCHLD evs \<Rightarrow> sigchldHandler (pending s @ evs) ((call Sigsuspend s)\<lparr>pending := []\<rparr>)
         | WakeINT \<Rightarrow>
             (case deliver_pending (call Sigsuspend s) of
                Returns s' \<Rightarrow> sigintHandler s' | r \<Rightarrow> r)
         | WakeTSTP \<Rightarrow>
             (case deliver_pending (call Sigsuspend s) of
                Returns s' \<Rightarrow> sigtstpHandler s' | r \<Rightarrow> r)))"

text \<open>
  \<^verbatim>\<open>while (joblist.hasForegroundJob()) sigsuspend(&existing);\<close> The list holds the
  wakes the operating system will deliver; when it is used up and a foreground job is
  still there, the shell sleeps for ever (\<open>None\<close>).
\<close>

fun wait_loop :: "bool \<Rightarrow> wake list \<Rightarrow> shell \<Rightarrow> result option" where
  "wait_loop existing [] s =
     (if hasForegroundJob (joblist s) then None else Some (Returns s))"
| "wait_loop existing (w # ws) s =
     (if hasForegroundJob (joblist s)
      then (case sigsuspend existing w s of
              None \<Rightarrow> None
            | Some (Returns s') \<Rightarrow> wait_loop existing ws s'
            | Some r \<Rightarrow> Some r)
      else Some (Returns s))"

subsection \<open>Builtins\<close>

text \<open>
  \<^verbatim>\<open>fgBuiltin\<close>. \<open>kill_ok pid\<close> says whether \<^verbatim>\<open>kill(pid, SIGCONT)\<close> returns 0.
  \<^verbatim>\<open>pipeline.commands[0]\<close> exists by the parser's contract; a pipeline without
  commands is outside the function's domain.
\<close>

definition fgBuiltin :: "(int \<Rightarrow> bool) \<Rightarrow> wake list \<Rightarrow> pipeline \<Rightarrow> nat \<Rightarrow> shell \<Rightarrow> result option" where
  "fgBuiltin kill_ok wakes p index s =
     (case commands p of
        [] \<Rightarrow> Some (Aborts s)
      | c # cs \<Rightarrow>
         (case tok (tokens c) 0 of
            None \<Rightarrow> Some (Throws ''Usage: fg <jobid>.'' s)
          | Some first \<Rightarrow>
              let num = atoi first;
                  ret = fst (strtol first);
                  ptr = snd (strtol first)
              in if (0 < length first \<and> 0 < length ptr) \<or> ret < 0
                 then Some (Throws ''Usage: fg <jobid>.'' s)
                 else if \<not> containsJob (to_size_t num) (joblist s)
                 then Some (Throws (''fg '' @ to_string num @ '':  No such job.'') s)
                 else (case getJob (to_size_t num) (joblist s) of
                         None \<Rightarrow> Some (Aborts s)
                       | Some job \<Rightarrow>
                           let existing = blocked s;
                               s1 = sigprocmask_BLOCK s;
                               s2 = fold
                                 (\<lambda>q t. if kill_ok (getID q)
                                    then (call (Kill (getID q) SIGCONT) t)
                                           \<lparr>joblist := updateJob (getNum job)
                                              (\<lambda>j. j\<lparr>getJobState := kForeground\<rparr>) (joblist t)\<rparr>
                                    else call (Kill (getID q) SIGCONT) t)
                                 (getProcesses job) s1;
                               s3 = synchronize (getNum job) s2
                           in (case wait_loop existing wakes s3 of
                                 None \<Rightarrow> None
                               | Some (Returns s4) \<Rightarrow> Some (sigprocmask_UNBLOCK s4)
                               | Some r \<Rightarrow> Some r))))"

definition bgBuiltin :: "pipeline \<Rightarrow> nat \<Rightarrow> shell \<Rightarrow> result" where
  "bgBuiltin p index s =
     (case commands p of
        [] \<Rightarrow> Aborts s
      | c # cs \<Rightarrow>
         (case tok (tokens c) 0 of
            None \<Rightarrow> Throws ''Usage: bg <jobid>.'' s
          | Some first \<Rightarrow>
              let num = atoi first;
                  ret = fst (strtol first);
                  ptr = snd (strtol first)
              in if (0 < length first \<and> 0 < length ptr) \<or> ret < 0
                 then Throws ''Usage: bg <jobid>.'' s
                 else if \<not> containsJob (to_size_t num) (joblist s)
                 then Throws (''bg '' @ to_string num @ '':  No such job.'') s
                 else (case getJob (to_size_t num) (joblist s) of
                         None \<Rightarrow> Aborts s
                       | Some job \<Rightarrow>
                           Returns (synchronize (getNum job)
                                      (kill_each (getProcesses job) SIGCONT s)))))"

text \<open>
  The two \<^verbatim>\<open>switch\<close> statements of \<^verbatim>\<open>SHCBuiltin\<close>. No case ends with
  \<^verbatim>\<open>break\<close>, so control runs on from the case it enters through every case below it:
  each line is one assignment, executed when the switch was entered at its case or at
  one above. \<^verbatim>\<open>killer\<close> starts uninitialised (\<open>None\<close>), \<^verbatim>\<open>builtin\<close> starts as the
  empty string.
\<close>

definition SHC_killer :: "nat \<Rightarrow> signal option" where
  "SHC_killer index =
     (let k0 = None;
          k1 = (if index = 4 then Some SIGKILL else k0);
          k2 = (if index = 4 \<or> index = 5 then Some SIGSTOP else k1);
          k3 = (if index = 4 \<or> index = 5 \<or> index = 6 then Some SIGCONT else k2)
      in k3)"

definition SHC_builtin :: "nat \<Rightarrow> string" where
  "SHC_builtin index =
     (let b0 = [];
          b1 = (if index = 4 then ''slay'' else b0);
          b2 = (if index = 4 \<or> index = 5 then ''halt'' else b1);
          b3 = (if index = 4 \<or> index = 5 \<or> index = 6 then ''cont'' else b2)
      in b3)"

text \<open>\<^verbatim>\<open>kill(pid, killer)\<close> with the local \<^verbatim>\<open>killer\<close>, which may never have been set.\<close>

definition kill_with :: "signal option \<Rightarrow> STSHProcess list \<Rightarrow> shell \<Rightarrow> result" where
  "kill_with killer qs s =
     (case killer of
        None \<Rightarrow> (if qs = [] then Returns s else Aborts s)
      | Some sig \<Rightarrow> Returns (kill_each qs sig s))"

definition SHCBuiltin :: "pipeline \<Rightarrow> nat \<Rightarrow> shell \<Rightarrow> result" where
  "SHCBuiltin p index s =
     (case commands p of
        [] \<Rightarrow> Aborts s
      | c # cs \<Rightarrow>
         let first = tok (tokens c) 0;
             second = tok (tokens c) 1;
             killer = SHC_killer index;
             builtin = SHC_builtin index
         in (case first of
               None \<Rightarrow> Throws (''Usage: '' @ builtin @ '' <jobid> <index> | <pid>.'') s
             | Some f \<Rightarrow>
                 let num = atoi f;
                     ret = fst (strtol f);
                     ptr = snd (strtol f)
                 in (case second of
                       None \<Rightarrow>
                         if (0 < length f \<and> 0 < length ptr) \<or> ret < 0
                         then Throws ''Usage: bg <jobid>.'' s
                         else if \<not> containsProcess num (joblist s)
                         then Throws (''No process with pid '' @ to_string num @ ''.'') s
                         else (case getJobWithProcess num (joblist s) of
                                 None \<Rightarrow> Aborts s
                               | Some job \<Rightarrow> kill_with killer (getProcesses job) s)
                     | Some sec \<Rightarrow>
                         if \<not> containsJob (to_size_t num) (joblist s)
                         then Throws (''No job with id of '' @ to_string num @ ''.'') s
                         else (case getJob (to_size_t num) (joblist s) of
                                 None \<Rightarrow> Aborts s
                               | Some job \<Rightarrow>
                                   let pid = atoi sec
                                   in if \<not> job_containsProcess pid job
                                      then Throws (''No process pid '' @ to_string pid @ ''.'') s
                                      else (case job_getProcess pid job of
                                              None \<Rightarrow> Aborts s
                                            | Some process \<Rightarrow> kill_with killer [process] s)))))"

text \<open>
  \<^verbatim>\<open>handleBuiltin\<close>: the position of the command in \<^verbatim>\<open>kSupportedBuiltins\<close> selects
  the builtin. \<^verbatim>\<open>jobs\<close> writes the table to \<^verbatim>\<open>cout\<close>; the text it writes is produced
  by code that is not among the sources and is left out of the trace.
\<close>

definition kSupportedBuiltins :: "string list" where
  "kSupportedBuiltins = [''quit'', ''exit'', ''fg'', ''bg'', ''slay'', ''halt'', ''cont'', ''jobs'']"

fun find_pos :: "string list \<Rightarrow> string \<Rightarrow> nat" where
  "find_pos [] x = 0"
| "find_pos (y # ys) x = (if y = x then 0 else Suc (find_pos ys x))"

datatype dispatch = NotBuiltin | Builtin "result option"

definition handleBuiltin :: "(int \<Rightarrow> bool) \<Rightarrow> wake list \<Rightarrow> pipeline \<Rightarrow> shell \<Rightarrow> dispatch" where
  "handleBuiltin kill_ok wakes p s =
     (case commands p of
        [] \<Rightarrow> Builtin (Some (Aborts s))
      | c # cs \<Rightarrow>
         let index = find_pos kSupportedBuiltins (command c)
         in if index = length kSupportedBuiltins then NotBuiltin
            else if index = 0 \<or> index = 1 then Builtin (Some (Exits 0 s))
            else if index = 2 then Builtin (fgBuiltin kill_ok wakes p index s)
            else if index = 3 then Builtin (Some (bgBuiltin p index s))
            else if index = 4 \<or> index = 5 \<or> index = 6 then Builtin (Some (SHCBuiltin p index s))
            else if index = 7 then Builtin (Some (Returns s))
            else Builtin (Some (Throws ''Internal Error: Builtin command not supported.'' s)))"

subsection \<open>createJob: the parent\<close>

text \<open>
  What \<^verbatim>\<open>tcsetpgrp\<close> answers: success, -1 with ENOTTY, or -1 with another error. The
  source throws on the last one only.
\<close>

datatype tc_result = TcOk | TcENOTTY | TcError

definition tcsetpgrp :: "(int \<Rightarrow> tc_result) \<Rightarrow> int \<Rightarrow> shell \<Rightarrow> result" where
  "tcsetpgrp tc pg s =
     (case tc pg of
        TcOk \<Rightarrow> Returns ((call (Tcsetpgrp pg) s)\<lparr>terminal := pg\<rparr>)
      | TcENOTTY \<Rightarrow> Returns (call (Tcsetpgrp pg) s)
      | TcError \<Rightarrow> Throws ''authority error.'' (call (Tcsetpgrp pg) s))"

definition printBG :: "STSHJob \<Rightarrow> shell \<Rightarrow> shell" where
  "printBG job s =
     call (Stdout (''['' @ to_string (int (getNum job)) @ '']'' @
                   concat (map (\<lambda>q. '' '' @ to_string (getID q)) (getProcesses job)))) s"

text \<open>
  The \<^verbatim>\<open>for\<close> loop over the commands, as the parent runs it. Each element of \<open>fk\<close>
  is what one \<^verbatim>\<open>fork\<close> returns in the parent, together with the child events that
  arrive between that return and the call of \<^verbatim>\<open>addProcess\<close>; when \<open>fk\<close> is used
  up, \<^verbatim>\<open>fork\<close> fails with -1. The answer 0 is the child's (its side is
  \<open>createJob_child\<close> below). \<open>n\<close> is the reference \<^verbatim>\<open>job\<close>; using it after the job
  was removed from the table cuts the function short.
\<close>

fun fork_loop :: "nat \<Rightarrow> command list \<Rightarrow> (int \<times> (int \<times> wstatus) list) list \<Rightarrow> shell \<Rightarrow> result" where
  "fork_loop n [] fk s = Returns s"
| "fork_loop n (cmd # cmds) fk s =
     (let pid = (case fk of [] \<Rightarrow> - 1 | a # r \<Rightarrow> fst a);
          early = (case fk of [] \<Rightarrow> [] | a # r \<Rightarrow> snd a);
          s1 = call (Fork pid) s
      in if pid = 0 then Aborts s1
         else (case arrive early s1 of
                 Returns s2 \<Rightarrow>
                   (case getJob n (joblist s2) of
                      None \<Rightarrow> Aborts s2
                    | Some job \<Rightarrow>
                        let job' = addProcess
                              \<lparr>getID = pid, getCommand = command cmd, getState = kRunning\<rparr> job;
                            s3 = s2\<lparr>joblist := updateJob n (\<lambda>j. job') (joblist s2)\<rparr>;
                            s4 = call (Setpgid pid (getGroupID job')) s3
                        in fork_loop n cmds (tl fk) s4)
               | r \<Rightarrow> r))"

text \<open>
  \<^verbatim>\<open>createJob\<close> from its first line to the second \<^verbatim>\<open>tcsetpgrp\<close>: everything before
  \<^verbatim>\<open>sigprocmask(SIG_BLOCK, &mask, &existing)\<close>. \<open>trunc_ok\<close> says whether the first
  \<^verbatim>\<open>open\<close> of the output file succeeds. A pipeline has at least one command by the
  parser's contract.
\<close>

definition createJob_launch ::
  "(int \<Rightarrow> tc_result) \<Rightarrow> bool \<Rightarrow> (int \<times> (int \<times> wstatus) list) list \<Rightarrow> pipeline \<Rightarrow> shell \<Rightarrow> result" where
  "createJob_launch tc trunc_ok fk p s =
     (let state = (if background p then kBackground else kForeground);
          n = fst (addJob state (joblist s));
          s0 = s\<lparr>joblist := snd (addJob state (joblist s))\<rparr>;
          count = length (commands p);
          s1 = (if input_path p = [] then s0 else call (OpenRdonly (input_path p)) s0);
          s2 = (if output_path p = [] then s1 else call (OpenTrunc (output_path p)) s1);
          s3 = (if output_path p = [] \<or> trunc_ok then s2 else call (OpenCreat (output_path p)) s2);
          s4 = fold (\<lambda>i. call (Pipe i)) [0 ..< count - 1] s3
      in if count = 0 then Aborts s
         else (case fork_loop n (commands p) fk s4 of
                 Returns s5 \<Rightarrow>
                   (let s6 = fold (\<lambda>i. call (ClosePipe i)) [0 ..< count - 1] s5
                    in case getJob n (joblist s6) of
                         None \<Rightarrow> Aborts s6
                       | Some job \<Rightarrow>
                           let s7 = (if background p then printBG job s6 else s6)
                           in (case (if hasForegroundJob (joblist s7)
                                     then tcsetpgrp tc (getGroupID job) s7 else Returns s7) of
                                 Returns s8 \<Rightarrow> tcsetpgrp tc (shell_pgid s8) s8
                               | r \<Rightarrow> r))
               | r \<Rightarrow> r))"

text \<open>
  The whole of \<^verbatim>\<open>createJob\<close>: the launch, then the signals are blocked, the shell
  waits while there is a foreground job, and the signals are unblocked.
\<close>

definition createJob ::
  "(int \<Rightarrow> tc_result) \<Rightarrow> bool \<Rightarrow> (int \<times> (int \<times> wstatus) list) list \<Rightarrow> wake list \<Rightarrow>
   pipeline \<Rightarrow> shell \<Rightarrow> result option" where
  "createJob tc trunc_ok fk wakes p s =
     (case createJob_launch tc trunc_ok fk p s of
        Returns s1 \<Rightarrow>
          (let existing = blocked s1;
               s2 = sigprocmask_BLOCK s1
           in case wait_loop existing wakes s2 of
                None \<Rightarrow> None
              | Some (Returns s3) \<Rightarrow> Some (sigprocmask_UNBLOCK s3)
              | Some r \<Rightarrow> Some r)
      | r \<Rightarrow> Some r)"

subsection \<open>createJob: the forked child\<close>

text \<open>
  A file descriptor the child names: the opened input and output files, an end of a pipe
  (\<^verbatim>\<open>fds[k][e]\<close>, with the index as the code computes it, in or out of the array), and
  the two standard descriptors.
\<close>

datatype fd = Infd | Outfd | PipeEnd int nat | STDIN_FILENO | STDOUT_FILENO

datatype fdcall = sys_dup2 fd fd | sys_close fd

definition Dup2 :: "fd \<Rightarrow> fd \<Rightarrow> fdcall list" where
  "Dup2 infd1 infd2 = [sys_dup2 infd1 infd2, sys_close infd1]"

definition Close :: "int \<Rightarrow> fdcall list" where
  "Close k = [sys_close (PipeEnd k 0), sys_close (PipeEnd k 1)]"

text \<open>
  The descriptor calls of the child forked for command \<open>i\<close> of \<open>count\<close>, in program
  order. \<^verbatim>\<open>int fds[count][2]\<close> has the rows \<open>0 .. count - 1\<close>; the pipes are the rows
  \<open>0 .. count - 2\<close>.
\<close>

definition child_fds :: "int \<Rightarrow> int \<Rightarrow> bool \<Rightarrow> bool \<Rightarrow> fdcall list" where
  "child_fds count i has_input has_output =
     (if count = 1
      then (if has_input then Dup2 Infd STDIN_FILENO else []) @
           (if has_output then Dup2 Outfd STDOUT_FILENO else [])
      else (if i = 0
            then (if has_input then Dup2 Infd STDIN_FILENO else []) @
                 [sys_close (PipeEnd 0 0)] @
                 Dup2 (PipeEnd 0 1) STDOUT_FILENO @
                 Close count
            else if i = count - 1
            then (if has_output then Dup2 Outfd STDOUT_FILENO else []) @
                 [sys_close (PipeEnd (i - 1) 1)] @
                 Dup2 (PipeEnd (i - 1) 0) STDIN_FILENO @
                 Close 0
            else [sys_close (PipeEnd (i - 1) 1)] @
                 Dup2 (PipeEnd (i - 1) 0) STDIN_FILENO @
                 [sys_close (PipeEnd i 0)] @
                 Dup2 (PipeEnd i 1) STDOUT_FILENO @
                 Close 0 @
                 Close (count - 1)) @
           concat (map Close [1 .. count - 3]))"

text \<open>The descriptors the child has closed, and the rows of \<^verbatim>\<open>fds\<close> it has indexed.\<close>

fun closed_fd :: "fdcall \<Rightarrow> fd list" where
  "closed_fd (sys_close f) = [f]"
| "closed_fd (sys_dup2 f g) = []"

fun fd_rows :: "fd \<Rightarrow> int list" where
  "fd_rows (PipeEnd k e) = [k]"
| "fd_rows f = []"

fun call_rows :: "fdcall \<Rightarrow> int list" where
  "call_rows (sys_close f) = fd_rows f"
| "call_rows (sys_dup2 f g) = fd_rows f @ fd_rows g"

definition closed_fds :: "fdcall list \<Rightarrow> fd list" where
  "closed_fds cs = concat (map closed_fd cs)"

definition rows_used :: "fdcall list \<Rightarrow> int list" where
  "rows_used cs = concat (map call_rows cs)"

text \<open>
  The child from \<^verbatim>\<open>fork\<close> to \<^verbatim>\<open>execvp\<close>. \<open>exec_ok\<close> says for which commands
  \<^verbatim>\<open>execvp\<close> succeeds; then the process runs the new program and nothing of the
  shell's code after it. Otherwise \<^verbatim>\<open>execvp\<close> returns -1 and the child throws.
  \<open>pgid\<close> is \<^verbatim>\<open>job.getGroupID()\<close> as the child's copy of the table has it.
\<close>

datatype child_call = child_setpgid int int | child_fd fdcall | child_execvp string "string list"

datatype child_end = Execed | ChildThrows string

definition createJob_child ::
  "(string \<Rightarrow> bool) \<Rightarrow> pipeline \<Rightarrow> nat \<Rightarrow> int \<Rightarrow> child_call list \<times> child_end" where
  "createJob_child exec_ok p i pgid =
     (let cmd = commands p ! i;
          count = int (length (commands p));
          args = command cmd # tokens cmd;
          str = command cmd
      in ([child_setpgid 0 pgid] @
          map child_fd (child_fds count (int i) (input_path p \<noteq> []) (output_path p \<noteq> [])) @
          [child_execvp (command cmd) args],
          if exec_ok (command cmd) then Execed
          else ChildThrows (str @ '': Command not found.'')))"

subsection \<open>main: the catch clause of the loop\<close>

text \<open>
  What a process does after the \<^verbatim>\<open>try\<close> block of one iteration: it goes on to the
  next iteration of the loop, it exits with a status, or it has become another program.
\<close>

datatype after = NextIteration | ProcessExit int | OtherProgram

text \<open>
  \<^verbatim>\<open>catch (const STSHException& e)\<close>: \<^verbatim>\<open>e.what()\<close>, the message the exception
  was thrown with, goes to \<^verbatim>\<open>cerr\<close>, and a process whose pid is not the shell's
  exits. The pair is the lines written to \<^verbatim>\<open>cerr\<close> and what the process does next.
\<close>

definition main_catch :: "int \<Rightarrow> int \<Rightarrow> string \<Rightarrow> string list \<times> after" where
  "main_catch stshpid self what =
     ([what], if self \<noteq> stshpid then ProcessExit 0 else NextIteration)"

text \<open>
  The rest of the iteration in the child forked for command \<open>i\<close>, whose pid is \<open>self\<close>:
  the child's part of \<^verbatim>\<open>createJob\<close>, and the \<^verbatim>\<open>catch\<close> clause when that throws.
\<close>

definition child_iteration ::
  "(string \<Rightarrow> bool) \<Rightarrow> int \<Rightarrow> int \<Rightarrow> pipeline \<Rightarrow> nat \<Rightarrow> int \<Rightarrow> string list \<times> after" where
  "child_iteration exec_ok stshpid self p i pgid =
     (case snd (createJob_child exec_ok p i pgid) of
        Execed \<Rightarrow> ([], OtherProgram)
      | ChildThrows what \<Rightarrow> main_catch stshpid self what)"

fun exit_status :: "after \<Rightarrow> int option" where
  "exit_status (ProcessExit st) = Some st"
| "exit_status a = None"

subsection \<open>The reaper as the specification words it\<close>

text \<open>
  The specification's table: exited normally and killed by a signal give Terminated,
  stopped gives Stopped, continued gives Running.
\<close>

fun spec_new_state :: "wstatus \<Rightarrow> STSHProcessState" where
  "spec_new_state (WExited c) = kTerminated"
| "spec_new_state (WSignaled g) = kTerminated"
| "spec_new_state (WStopped g) = kStopped"
| "spec_new_state WContinued = kRunning"

text \<open>
  One event: the matching process of the owning job gets its new state, then
  \<open>synchronize\<close> runs on the owning job.
\<close>

definition spec_reap :: "int \<Rightarrow> wstatus \<Rightarrow> shell \<Rightarrow> shell" where
  "spec_reap pid status s =
     (case getJobWithProcess pid (joblist s) of
        None \<Rightarrow> s
      | Some job \<Rightarrow>
          synchronize (getNum job)
            (s\<lparr>joblist :=
                 updateJob (getNum job)
                   (\<lambda>j. j\<lparr>getProcesses :=
                            setProcessState pid (spec_new_state status) (getProcesses j)\<rparr>)
                   (joblist s)\<rparr>))"

text \<open>The loop: events are taken in order until the wait reports 0 or a negative value.\<close>

fun spec_reaper :: "(int \<times> wstatus) list \<Rightarrow> shell \<Rightarrow> shell" where
  "spec_reaper [] s = s"
| "spec_reaper ((pid, status) # evs) s =
     (if pid \<le> 0 then s else spec_reaper evs (spec_reap pid status s))"

text \<open>
  Every pid the loop gets to see belongs to a process of the table, at the moment it is
  looked up.
\<close>

fun all_known :: "(int \<times> wstatus) list \<Rightarrow> shell \<Rightarrow> bool" where
  "all_known [] s = True"
| "all_known ((pid, status) # evs) s =
     (pid \<le> 0 \<or> (containsProcess pid (joblist s) \<and> all_known evs (spec_reap pid status s)))"

subsection \<open>Concrete shells and command lines\<close>

text \<open>
  A shell whose process group is 50, holding the terminal, with an empty table and no
  signal blocked.
\<close>

definition idle_shell :: shell where
  "idle_shell =
     \<lparr>joblist = [], terminal = 50, shell_pgid = 50, blocked = False, pending = [], trace = []\<rparr>"

text \<open>
  The same shell with two background jobs: job 1 is the running pipeline
  \<^verbatim>\<open>cat | wc\<close> (pids 100 and 101), job 2 is a running \<^verbatim>\<open>sleep\<close> (pid 200).
\<close>

definition two_jobs :: shell where
  "two_jobs =
     \<lparr>joblist =
        [\<lparr>getNum = 1, getGroupID = 100, getJobState = kBackground,
          getProcesses =
            [\<lparr>getID = 100, getCommand = ''cat'', getState = kRunning\<rparr>,
             \<lparr>getID = 101, getCommand = ''wc'', getState = kRunning\<rparr>]\<rparr>,
         \<lparr>getNum = 2, getGroupID = 200, getJobState = kBackground,
          getProcesses = [\<lparr>getID = 200, getCommand = ''sleep'', getState = kRunning\<rparr>]\<rparr>],
      terminal = 50, shell_pgid = 50, blocked = False, pending = [], trace = []\<rparr>"

text \<open>A command line of one command with its arguments, run in the foreground.\<close>

definition line :: "string \<Rightarrow> string list \<Rightarrow> pipeline" where
  "line c ts =
     \<lparr>commands = [\<lparr>command = c, tokens = ts\<rparr>],
      input_path = [], output_path = [], background = False\<rparr>"

text \<open>A foreground pipeline of commands without arguments or redirections.\<close>

definition pipe_of :: "string list \<Rightarrow> pipeline" where
  "pipe_of cs =
     \<lparr>commands = map (\<lambda>c. \<lparr>command = c, tokens = []\<rparr>) cs,
      input_path = [], output_path = [], background = False\<rparr>"

section \<open>Properties\<close>

subsection \<open>The SIGCHLD handler\<close>

lemma status_state_table: "status_state status = Some (spec_new_state status)"
  by (cases status) (simp_all add: status_state_def)

lemma containsProcess_lookup:
  "containsProcess pid jl \<Longrightarrow>
     \<exists>job. getJobWithProcess pid jl = Some job \<and> job_containsProcess pid job"
  by (induction jl) (auto simp: containsProcess_def getJobWithProcess_def)

lemma sigchldHandler_known_step:
  assumes "0 < pid" and "containsProcess pid (joblist s)"
  shows "sigchldHandler ((pid, status) # evs) s = sigchldHandler evs (spec_reap pid status s)"
proof -
  from assms(2) obtain job where j: "getJobWithProcess pid (joblist s) = Some job"
    and c: "job_containsProcess pid job"
    using containsProcess_lookup by blast
  from assms(1) have "\<not> pid \<le> 0" by simp
  then show ?thesis
    by (simp add: j c status_state_table spec_reap_def)
qed

text \<open>
  Setting the state of the process with a pid changes that process and no other, and
  keeps the pids of the job.
\<close>

lemma setProcessState_sets:
  "find (\<lambda>q. getID q = p) qs = Some q \<Longrightarrow>
     find (\<lambda>q. getID q = p) (setProcessState p st qs) = Some (q\<lparr>getState := st\<rparr>)"
  by (induction qs) (auto split: if_splits)

lemma setProcessState_others:
  "p' \<noteq> p \<Longrightarrow>
     find (\<lambda>q. getID q = p') (setProcessState p st qs) = find (\<lambda>q. getID q = p') qs"
  by (induction qs) auto

lemma setProcessState_pids:
  "map getID (setProcessState p st qs) = map getID qs"
  by (induction qs) auto

text \<open>
  C6. The handler takes the results of \<^verbatim>\<open>waitpid\<close> in order until one is 0 or
  negative (or there is none left). For each event it gives the matching process the
  state of the specification's table (Terminated for a normal exit and for a death by
  signal, Stopped for a stop, Running for a continue) and then calls \<open>synchronize\<close> on the
  owning job: the handler computes what \<open>spec_reaper\<close> describes, and it returns, whenever
  every pid it is given is a process of the table.
\<close>

theorem sigchldHandler_reaps:
  "all_known evs s \<Longrightarrow> sigchldHandler evs s = Returns (spec_reaper evs s)"
proof (induction evs arbitrary: s)
  case Nil
  show ?case by simp
next
  case (Cons ev evs)
  obtain pid status where ev: "ev = (pid, status)" by (cases ev)
  show ?case
  proof (cases "pid \<le> 0")
    case True
    then show ?thesis by (simp add: ev)
  next
    case False
    with Cons.prems ev have k: "containsProcess pid (joblist s)"
      and rest: "all_known evs (spec_reap pid status s)"
      by simp_all
    from False have "0 < pid" by simp
    then have "sigchldHandler (ev # evs) s = sigchldHandler evs (spec_reap pid status s)"
      unfolding ev using k by (rule sigchldHandler_known_step)
    also have "\<dots> = Returns (spec_reaper evs (spec_reap pid status s))"
      using rest by (rule Cons.IH)
    finally show ?thesis using False by (simp add: ev)
  qed
qed

text \<open>
  On the table with two jobs: pid 100 stops, pid 200 exits (job 2 is removed), pid 100 is
  continued, pid 101 is killed; the answer 0 ends the loop, and what follows is not read.
\<close>

theorem sigchldHandler_reaps_witness:
  "all_known
     [(100, WStopped 20), (200, WExited 0), (100, WContinued), (101, WSignaled 9),
      (0, WContinued), (77, WExited 0)] two_jobs \<and>
   sigchldHandler
     [(100, WStopped 20), (200, WExited 0), (100, WContinued), (101, WSignaled 9),
      (0, WContinued), (77, WExited 0)] two_jobs =
   Returns
     \<lparr>joblist =
        [\<lparr>getNum = 1, getGroupID = 100, getJobState = kBackground,
          getProcesses =
            [\<lparr>getID = 100, getCommand = ''cat'', getState = kRunning\<rparr>,
             \<lparr>getID = 101, getCommand = ''wc'', getState = kTerminated\<rparr>]\<rparr>],
      terminal = 50, shell_pgid = 50, blocked = False, pending = [], trace = []\<rparr>"
proof -
  have known: "all_known
     [(100, WStopped 20), (200, WExited 0), (100, WContinued), (101, WSignaled 9),
      (0, WContinued), (77, WExited 0)] two_jobs"
    by code_simp
  have final: "spec_reaper
     [(100, WStopped 20), (200, WExited 0), (100, WContinued), (101, WSignaled 9),
      (0, WContinued), (77, WExited 0)] two_jobs =
     \<lparr>joblist =
        [\<lparr>getNum = 1, getGroupID = 100, getJobState = kBackground,
          getProcesses =
            [\<lparr>getID = 100, getCommand = ''cat'', getState = kRunning\<rparr>,
             \<lparr>getID = 101, getCommand = ''wc'', getState = kTerminated\<rparr>]\<rparr>],
      terminal = 50, shell_pgid = 50, blocked = False, pending = [], trace = []\<rparr>"
    by code_simp
  from sigchldHandler_reaps [OF known] known final show ?thesis by simp
qed

subsection \<open>A command that cannot be executed\<close>

text \<open>
  C4, as the code has it. For every command whose \<^verbatim>\<open>execvp\<close> fails, the forked child
  writes \<^verbatim>\<open><command>: Command not found.\<close> to \<^verbatim>\<open>cerr\<close> and then exits with status
  0: the \<^verbatim>\<open>catch\<close> clause of the loop calls \<^verbatim>\<open>exit(0)\<close> in a process whose pid is
  not the shell's. The child runs no further iteration of the loop.
\<close>

theorem child_exec_failure_exits_0:
  assumes "i < length (commands p)"
    and "\<not> exec_ok (command (commands p ! i))"
    and "self \<noteq> stshpid"
  shows "child_iteration exec_ok stshpid self p i pgid =
           ([command (commands p ! i) @ '': Command not found.''], ProcessExit 0)"
  using assms
  by (simp add: child_iteration_def createJob_child_def main_catch_def Let_def)

text \<open>
  The second command of \<^verbatim>\<open>ls | nosuchprog\<close>, in a child with pid 101 of the shell
  with pid 10, where only \<^verbatim>\<open>ls\<close> can be executed.
\<close>

theorem child_exec_failure_exits_0_witness:
  "1 < length (commands (pipe_of [''ls'', ''nosuchprog''])) \<and>
   command (commands (pipe_of [''ls'', ''nosuchprog'']) ! 1) \<noteq> ''ls'' \<and>
   (101 :: int) \<noteq> 10 \<and>
   child_iteration (\<lambda>c. c = ''ls'') 10 101 (pipe_of [''ls'', ''nosuchprog'']) 1 100 =
     ([''nosuchprog: Command not found.''], ProcessExit 0)"
proof -
  have len: "1 < length (commands (pipe_of [''ls'', ''nosuchprog'']))"
    by (simp add: pipe_of_def)
  have cmd: "command (commands (pipe_of [''ls'', ''nosuchprog'']) ! 1) = ''nosuchprog''"
    by (simp add: pipe_of_def)
  have fails: "\<not> (\<lambda>c. c = ''ls'') (command (commands (pipe_of [''ls'', ''nosuchprog'']) ! 1))"
    by (simp add: pipe_of_def)
  have pids: "(101 :: int) \<noteq> 10" by simp
  note child_exec_failure_exits_0
    [where i = 1 and p = "pipe_of [''ls'', ''nosuchprog'']" and exec_ok = "\<lambda>c. c = ''ls''"
       and self = 101 and stshpid = 10 and pgid = 100, OF len fails pids]
  with len fails cmd show ?thesis by simp
qed

text \<open>
  C4 as the specification states it asks for a non-zero exit status. The child of
  \<^verbatim>\<open>nosuchprog\<close> exits with status 0.
\<close>

theorem child_exit_status_counterexample:
  "exit_status (snd (child_iteration (\<lambda>c. False) 10 100 (pipe_of [''nosuchprog'']) 0 0)) = Some 0"
  by code_simp

subsection \<open>The signalling builtins\<close>

text \<open>
  Whatever case the switches are entered at, the last assignment wins: no invocation
  sends SIGKILL or SIGSTOP or names \<^verbatim>\<open>slay\<close> or \<^verbatim>\<open>halt\<close>.
\<close>

lemma SHC_killer_is_SIGCONT:
  "SHC_killer index = (if index = 4 \<or> index = 5 \<or> index = 6 then Some SIGCONT else None)"
  by (simp add: SHC_killer_def)

lemma SHC_builtin_is_cont:
  "SHC_builtin index = (if index = 4 \<or> index = 5 \<or> index = 6 then ''cont'' else [])"
  by (simp add: SHC_builtin_def)

text \<open>
  C1. Each of \<^verbatim>\<open>slay\<close>, \<^verbatim>\<open>halt\<close> and \<^verbatim>\<open>cont\<close> should deliver its own signal and
  name itself in its usage diagnostic. In the code both switches fall through to their
  last case: on the table with two jobs, \<^verbatim>\<open>slay 200\<close> and \<^verbatim>\<open>halt 200\<close> send SIGCONT
  to pid 200, \<^verbatim>\<open>slay\<close> without an argument prints the usage line of \<^verbatim>\<open>cont\<close>, and
  \<^verbatim>\<open>halt 200x\<close> prints the usage line of \<^verbatim>\<open>bg\<close>.
\<close>

theorem slay_and_halt_send_SIGCONT:
  "SHC_killer 4 = Some SIGCONT \<and>
   SHC_killer 5 = Some SIGCONT \<and>
   SHC_builtin 4 = ''cont'' \<and>
   SHC_builtin 5 = ''cont'' \<and>
   handleBuiltin (\<lambda>pid. True) [] (line ''slay'' [''200'']) two_jobs =
     Builtin (Some (Returns (two_jobs\<lparr>trace := [Kill 200 SIGCONT]\<rparr>))) \<and>
   handleBuiltin (\<lambda>pid. True) [] (line ''halt'' [''200'']) two_jobs =
     Builtin (Some (Returns (two_jobs\<lparr>trace := [Kill 200 SIGCONT]\<rparr>))) \<and>
   handleBuiltin (\<lambda>pid. True) [] (line ''slay'' []) two_jobs =
     Builtin (Some (Throws ''Usage: cont <jobid> <index> | <pid>.'' two_jobs)) \<and>
   handleBuiltin (\<lambda>pid. True) [] (line ''halt'' [''200x'']) two_jobs =
     Builtin (Some (Throws ''Usage: bg <jobid>.'' two_jobs))"
  by code_simp

text \<open>
  C7. With one argument the signal should reach the process with that pid and no other,
  and with two arguments the second should be the index of the process in the job. In
  the code \<^verbatim>\<open>cont 101\<close> signals every process of the job that holds pid 101 (pids 100
  and 101), \<^verbatim>\<open>cont 1 0\<close> looks for a process whose pid is 0 and throws, and
  \<^verbatim>\<open>cont 1 101\<close> signals pid 101: the second argument is read as a pid.
\<close>

theorem cont_pid_signals_whole_job:
  "handleBuiltin (\<lambda>pid. True) [] (line ''cont'' [''101'']) two_jobs =
     Builtin (Some (Returns (two_jobs\<lparr>trace := [Kill 100 SIGCONT, Kill 101 SIGCONT]\<rparr>))) \<and>
   handleBuiltin (\<lambda>pid. True) [] (line ''cont'' [''1'', ''0'']) two_jobs =
     Builtin (Some (Throws ''No process pid 0.'' two_jobs)) \<and>
   handleBuiltin (\<lambda>pid. True) [] (line ''cont'' [''1'', ''101'']) two_jobs =
     Builtin (Some (Returns (two_jobs\<lparr>trace := [Kill 101 SIGCONT]\<rparr>)))"
  by code_simp

text \<open>
  C9. A numeric argument with trailing characters should be rejected with a usage
  diagnostic before any signal is sent. The two-argument form checks neither argument:
  \<^verbatim>\<open>cont 1x 101y\<close> sends SIGCONT to pid 101 of job 1. The one-argument form does
  reject \<^verbatim>\<open>101y\<close>.
\<close>

theorem cont_two_arguments_unvalidated:
  "handleBuiltin (\<lambda>pid. True) [] (line ''cont'' [''1x'', ''101y'']) two_jobs =
     Builtin (Some (Returns (two_jobs\<lparr>trace := [Kill 101 SIGCONT]\<rparr>))) \<and>
   handleBuiltin (\<lambda>pid. True) [] (line ''cont'' [''101y'']) two_jobs =
     Builtin (Some (Throws ''Usage: bg <jobid>.'' two_jobs))"
  by code_simp

subsection \<open>fg\<close>

text \<open>
  C5. \<^verbatim>\<open>fg n\<close> should hand the terminal to the job before it waits and take it back
  afterwards. \<^verbatim>\<open>fg 1\<close> on the table with two jobs blocks the signals, sends SIGCONT to
  pids 100 and 101, makes job 1 the foreground job and waits: a SIGINT is forwarded to the
  two processes, and when both have died the wait ends. \<^verbatim>\<open>tcsetpgrp\<close> is never called,
  and the terminal stays with the shell's process group 50.
\<close>

theorem fg_never_transfers_terminal:
  "handleBuiltin (\<lambda>pid. True)
     [WakeINT, WakeCHLD [(100, WSignaled 2), (101, WSignaled 2)]]
     (line ''fg'' [''1'']) two_jobs =
   Builtin (Some (Returns
     \<lparr>joblist =
        [\<lparr>getNum = 2, getGroupID = 200, getJobState = kBackground,
          getProcesses = [\<lparr>getID = 200, getCommand = ''sleep'', getState = kRunning\<rparr>]\<rparr>],
      terminal = 50, shell_pgid = 50, blocked = False, pending = [],
      trace = [SigBlock, Kill 100 SIGCONT, Kill 101 SIGCONT, Sigsuspend,
               Kill 100 SIGINT, Kill 101 SIGINT, Sigsuspend, SigUnblock]\<rparr>))"
  by code_simp

subsection \<open>createJob\<close>

text \<open>
  Nothing in the launch changes the signal mask or the shell's process group, and its
  last call is \<^verbatim>\<open>tcsetpgrp\<close> with the shell's own process group: whenever that call
  succeeds, the shell reaches its wait loop holding the terminal itself.
\<close>

lemma call_fields:
  "blocked (call c s) = blocked s" "shell_pgid (call c s) = shell_pgid s"
  "joblist (call c s) = joblist s"
  by (simp_all add: call_def)

lemma fold_call_fields:
  "blocked (fold (\<lambda>x. call (f x)) xs s) = blocked s"
  "shell_pgid (fold (\<lambda>x. call (f x)) xs s) = shell_pgid s"
  "joblist (fold (\<lambda>x. call (f x)) xs s) = joblist s"
  by (induction xs arbitrary: s) (simp_all add: call_fields)

lemma synchronize_fields:
  "blocked (synchronize n s) = blocked s" "shell_pgid (synchronize n s) = shell_pgid s"
  by (simp_all add: synchronize_def split: option.splits)

lemma printBG_fields:
  "blocked (printBG j s) = blocked s" "shell_pgid (printBG j s) = shell_pgid s"
  "joblist (printBG j s) = joblist s"
  by (simp_all add: printBG_def call_fields)

lemmas shell_fields = call_fields fold_call_fields synchronize_fields printBG_fields

lemma sigchldHandler_fields:
  "sigchldHandler evs s = Returns s' \<Longrightarrow>
     blocked s' = blocked s \<and> shell_pgid s' = shell_pgid s"
proof (induction evs s rule: sigchldHandler.induct)
  case (1 s)
  then show ?case by simp
next
  case (2 pid status evs s)
  then show ?case
    by (auto simp: shell_fields split: if_splits option.splits)
qed

lemma arrive_fields:
  "arrive evs s = Returns s' \<Longrightarrow> blocked s' = blocked s \<and> shell_pgid s' = shell_pgid s"
  by (auto simp: arrive_def split: if_splits dest: sigchldHandler_fields)

lemma fork_loop_fields:
  "fork_loop n cmds fk s = Returns s' \<Longrightarrow>
     blocked s' = blocked s \<and> shell_pgid s' = shell_pgid s"
proof (induction cmds arbitrary: fk s)
  case Nil
  then show ?case by simp
next
  case (Cons cmd cmds)
  then show ?case
    by (fastforce simp: Let_def shell_fields
        split: if_splits result.splits option.splits dest: arrive_fields)
qed

lemma tcsetpgrp_fields:
  "tcsetpgrp tc pg s = Returns s' \<Longrightarrow>
     blocked s' = blocked s \<and> shell_pgid s' = shell_pgid s"
  by (auto simp: tcsetpgrp_def shell_fields split: tc_result.splits)

lemma tcsetpgrp_terminal:
  "tc pg = TcOk \<Longrightarrow> tcsetpgrp tc pg s = Returns s' \<Longrightarrow> terminal s' = pg"
  by (auto simp: tcsetpgrp_def)

lemma tcsetpgrp_shell_pgid:
  "tcsetpgrp tc pg s = Returns s' \<Longrightarrow> shell_pgid s' = shell_pgid s"
  by (simp add: tcsetpgrp_fields)

lemma fork_loop_shell_pgid:
  "fork_loop n cmds fk s = Returns s' \<Longrightarrow> shell_pgid s' = shell_pgid s"
  by (simp add: fork_loop_fields)

lemma createJob_launch_keeps_mask:
  assumes "createJob_launch tc trunc_ok fk p s = Returns s'"
  shows "blocked s' = blocked s"
  using assms
  by (auto simp: createJob_launch_def Let_def shell_fields
      split: if_splits result.splits option.splits
      dest!: fork_loop_fields tcsetpgrp_fields)

lemma createJob_launch_last_call:
  assumes "createJob_launch tc trunc_ok fk p s = Returns s'"
  shows "\<exists>s8. tcsetpgrp tc (shell_pgid s) s8 = Returns s'"
  using assms
  by (auto simp: createJob_launch_def Let_def shell_fields
        tcsetpgrp_shell_pgid fork_loop_shell_pgid
      split: if_splits result.splits option.splits)

lemma createJob_launch_terminal:
  assumes "createJob_launch tc trunc_ok fk p s = Returns s'" and "tc (shell_pgid s) = TcOk"
  shows "terminal s' = shell_pgid s"
  using createJob_launch_last_call [OF assms(1)] assms(2)
  by (auto dest: tcsetpgrp_terminal)

text \<open>
  C2. During the foreground wait the terminal should belong to the job. For the
  foreground command \<^verbatim>\<open>sleep\<close> (child pid 100, shell process group 50) the state in
  which \<^verbatim>\<open>createJob\<close> reaches \<^verbatim>\<open>sigprocmask(SIG_BLOCK, ...)\<close> and its wait loop has
  job 1 in the foreground with pgid 100 and the terminal with group 50: the terminal was
  given to 100 and taken back at once. The whole run calls \<^verbatim>\<open>tcsetpgrp\<close> twice, both
  times before the first \<^verbatim>\<open>sigsuspend\<close>.
\<close>

theorem createJob_reclaims_terminal_before_waiting:
  "createJob_launch (\<lambda>pg. TcOk) True [(100, [])] (pipe_of [''sleep'']) idle_shell =
     Returns
       \<lparr>joblist =
          [\<lparr>getNum = 1, getGroupID = 100, getJobState = kForeground,
            getProcesses = [\<lparr>getID = 100, getCommand = ''sleep'', getState = kRunning\<rparr>]\<rparr>],
        terminal = 50, shell_pgid = 50, blocked = False, pending = [],
        trace = [Fork 100, Setpgid 100 100, Tcsetpgrp 100, Tcsetpgrp 50]\<rparr> \<and>
   createJob (\<lambda>pg. TcOk) True [(100, [])] [WakeCHLD [(100, WExited 0)]]
       (pipe_of [''sleep'']) idle_shell =
     Some (Returns
       (idle_shell\<lparr>trace := [Fork 100, Setpgid 100 100, Tcsetpgrp 100, Tcsetpgrp 50,
                               SigBlock, Sigsuspend, SigUnblock]\<rparr>))"
  by code_simp

text \<open>
  C3. The signals should be blocked before the first \<^verbatim>\<open>fork\<close> and stay blocked
  through every \<^verbatim>\<open>addProcess\<close>. For the pipeline \<^verbatim>\<open>cat | wc\<close> both forks, both
  insertions into the job and the closing of the pipe happen with the signals unblocked:
  the launch ends with \<open>blocked = False\<close>, and in the trace of the whole run
  \<open>SigBlock\<close> comes after the last \<open>Fork\<close> and \<open>ClosePipe\<close>.
\<close>

theorem createJob_forks_before_blocking:
  "createJob_launch (\<lambda>pg. TcOk) True [(100, []), (101, [])] (pipe_of [''cat'', ''wc''])
       idle_shell =
     Returns
       \<lparr>joblist =
          [\<lparr>getNum = 1, getGroupID = 100, getJobState = kForeground,
            getProcesses =
              [\<lparr>getID = 100, getCommand = ''cat'', getState = kRunning\<rparr>,
               \<lparr>getID = 101, getCommand = ''wc'', getState = kRunning\<rparr>]\<rparr>],
        terminal = 50, shell_pgid = 50, blocked = False, pending = [],
        trace = [Pipe 0, Fork 100, Setpgid 100 100, Fork 101, Setpgid 101 100, ClosePipe 0,
                 Tcsetpgrp 100, Tcsetpgrp 50]\<rparr> \<and>
   createJob (\<lambda>pg. TcOk) True [(100, []), (101, [])]
       [WakeCHLD [(100, WExited 0), (101, WExited 0)]] (pipe_of [''cat'', ''wc''])
       idle_shell =
     Some (Returns
       (idle_shell\<lparr>trace := [Pipe 0, Fork 100, Setpgid 100 100, Fork 101, Setpgid 101 100,
                               ClosePipe 0, Tcsetpgrp 100, Tcsetpgrp 50,
                               SigBlock, Sigsuspend, SigUnblock]\<rparr>))"
  by code_simp

text \<open>
  A pid that is not in the table cuts the handler short: the lookup
  \<^verbatim>\<open>getJobWithProcess\<close> fails.
\<close>

lemma lookup_fails_unknown:
  "\<not> containsProcess pid jl \<Longrightarrow> getJobWithProcess pid jl = None"
  by (induction jl) (auto simp: containsProcess_def getJobWithProcess_def)

lemma sigchldHandler_unknown_pid:
  "0 < pid \<Longrightarrow> \<not> containsProcess pid (joblist s) \<Longrightarrow>
     sigchldHandler ((pid, status) # evs) s = Aborts s"
  by (simp add: lookup_fails_unknown)

text \<open>
  C10. Every pid the handler gets from \<^verbatim>\<open>waitpid\<close> should already be in the table.
  For the command \<^verbatim>\<open>true\<close>, whose child (pid 100) exits before the parent has called
  \<^verbatim>\<open>addProcess\<close>, SIGCHLD is delivered at once because nothing is blocked. The table
  then holds job 1 without any process, \<^verbatim>\<open>getJobWithProcess(100)\<close> finds nothing and
  the handler is cut short.
\<close>

theorem sigchld_between_fork_and_addProcess:
  "createJob_launch (\<lambda>pg. TcOk) True [(100, [(100, WExited 1)])] (pipe_of [''true''])
       idle_shell =
     Aborts
       \<lparr>joblist =
          [\<lparr>getNum = 1, getGroupID = 0, getJobState = kForeground, getProcesses = []\<rparr>],
        terminal = 50, shell_pgid = 50, blocked = False, pending = [],
        trace = [Fork 100]\<rparr> \<and>
   getJobWithProcess 100
     [\<lparr>getNum = 1, getGroupID = 0, getJobState = kForeground, getProcesses = []\<rparr>] = None \<and>
   sigchldHandler [(100, WExited 1)]
     \<lparr>joblist =
          [\<lparr>getNum = 1, getGroupID = 0, getJobState = kForeground, getProcesses = []\<rparr>],
        terminal = 50, shell_pgid = 50, blocked = False, pending = [],
        trace = [Fork 100]\<rparr> =
     Aborts
       \<lparr>joblist =
          [\<lparr>getNum = 1, getGroupID = 0, getJobState = kForeground, getProcesses = []\<rparr>],
        terminal = 50, shell_pgid = 50, blocked = False, pending = [],
        trace = [Fork 100]\<rparr>"
  by code_simp

text \<open>
  Had the signals been blocked when \<^verbatim>\<open>createJob\<close> was entered, the same event would
  have stayed pending until the process was in the table.
\<close>

lemma blocked_launch_defers_sigchld:
  "createJob_launch (\<lambda>pg. TcOk) True [(100, [(100, WExited 1)])] (pipe_of [''true''])
     (idle_shell\<lparr>blocked := True\<rparr>) =
     Returns
       \<lparr>joblist =
          [\<lparr>getNum = 1, getGroupID = 100, getJobState = kForeground,
            getProcesses = [\<lparr>getID = 100, getCommand = ''true'', getState = kRunning\<rparr>]\<rparr>],
        terminal = 50, shell_pgid = 50, blocked = True, pending = [(100, WExited 1)],
        trace = [Fork 100, Setpgid 100 100, Tcsetpgrp 100, Tcsetpgrp 50]\<rparr>"
  by code_simp

text \<open>
  In every pipeline of two or more commands the first child indexes row \<open>count\<close> of
  an array whose rows are \<open>0 .. count - 1\<close>.
\<close>

lemma first_child_indexes_row_count:
  "count \<noteq> 1 \<Longrightarrow> count \<in> set (rows_used (child_fds count 0 has_input has_output))"
  by (simp add: child_fds_def rows_used_def Close_def Dup2_def)

text \<open>
  C8. Every child of a pipeline should close both ends of every pipe and index only
  rows of the pipes. In a pipeline of three commands (pipes in rows 0 and 1 of an array
  with rows 0 to 2) the first child closes the two ends of pipe 0 and then the two ends
  of row 3, which is outside the array. It never closes an end of pipe 1.
\<close>

theorem first_child_leaves_pipe_open:
  "child_fds 3 0 False False =
     [sys_close (PipeEnd 0 0), sys_dup2 (PipeEnd 0 1) STDOUT_FILENO, sys_close (PipeEnd 0 1),
      sys_close (PipeEnd 3 0), sys_close (PipeEnd 3 1)] \<and>
   closed_fds (child_fds 3 0 False False) =
     [PipeEnd 0 0, PipeEnd 0 1, PipeEnd 3 0, PipeEnd 3 1] \<and>
   rows_used (child_fds 3 0 False False) = [0, 0, 0, 3, 3]"
  by code_simp

end
